theory Spec2Isabelle
  imports Main
begin

section \<open>The myQ API client: data model\<close>

text \<open>
  The repository holds two copies of the class \<open>myQApi\<close> (two revisions of
  \<open>myq-api.ts\<close>, one after the other in \<open>src/unnamed/part_000\<close>: copy A in
  lines 1 to 961, copy B in lines 962 to 1917). Copy A schedules token refreshes with a timer
  (\<open>refreshTimer\<close>, \<open>setTokenRefreshTimer\<close>); copy B keeps time stamps and
  throttles its calls (\<open>refreshInterval\<close>, \<open>lastAuthenticateCall\<close>,
  \<open>lastRefreshDevicesCall\<close>). Functions that differ between the copies carry the
  suffix \<open>_A\<close> or \<open>_B\<close>; functions without a suffix are the same in both.
\<close>

subsection \<open>URLs, responses and the transport\<close>

text \<open>
  A parsed URL, as the platform's \<open>URL\<close> object presents it: the hostname, the
  path, and the query parameters (\<open>searchParams\<close>).
\<close>

record url =
  hostname :: string
  pathname :: string
  searchParams :: "(string \<times> string) list"

text \<open>
  The \<open>location\<close> header of a response, as the two ways of parsing it see it:
  \<open>new URL(location, base)\<close> resolves a relative reference against the response's
  own URL, \<open>new URL(location)\<close> accepts an absolute URL only; both raise a
  \<open>TypeError\<close> on text that is no URL.
\<close>

datatype location = NoLocation | Invalid | Relative string | Absolute url

record myQToken =
  access_token :: string
  refresh_token :: string
  token_type :: string
  expires_in :: int
  scope :: "string option"

record myQDevice =
  serial_number :: string
  device_family :: string
  account_id :: string
  name :: string
  parent_device_id :: "string option"

text \<open>
  A response, with the views of it that the client reads: the status, the response's URL,
  the raw \<open>cookie\<close> and \<open>set-cookie\<close> headers, the \<open>location\<close> header,
  the value of the \<open>__RequestVerificationToken\<close> input of an HTML body, and the
  JSON body read as a token, as an account list (\<open>None\<close> when \<open>data?.accounts\<close>
  is missing) and as a device list. A body is taken to parse as the type the code casts it
  to (\<open>myQToken\<close>, \<open>myQAccount\<close>, \<open>myQDeviceList\<close>, whose declarations in
  \<open>myq-types.ts\<close> are modelled by the fields the code reads); numbers are integers.
\<close>

record response =
  status :: nat
  resp_url :: url
  cookie :: "string list option"
  set_cookie :: "string list option"
  location :: location
  requestVerificationToken :: "string option"
  json_token :: myQToken
  json_accounts :: "string list option"
  json_items :: "myQDevice list"

text \<open>What \<open>myqRetrieve\<close> (the platform's fetch) does with one request: it resolves
  to a response, or it raises a \<open>FetchError\<close>, or it raises some other error object.
  The \<open>code\<close> of a \<open>FetchError\<close> is \<open>None\<close> when the error carries none
  (\<open>error.code\<close> is \<open>undefined\<close>).\<close>

datatype outcome = Response response | FetchError "string option" | OtherError

text \<open>The exceptions that the client itself raises and does not catch.\<close>

datatype error = TypeError

text \<open>
  The world outside the client: \<open>net env k\<close> is the outcome of the \<open>k\<close>-th
  request this client issues (counting from 0) and \<open>clock env k\<close> is the value of
  the \<open>k\<close>-th reading of \<open>Date.now()\<close>, in milliseconds.
\<close>

record env =
  net :: "nat \<Rightarrow> outcome"
  clock :: "nat \<Rightarrow> int"

text \<open>An issued request: the URL after the hostname rewrite, and the region index that
  was active when it was issued.\<close>

record request =
  req_url :: url
  req_region :: nat

subsection \<open>The client object\<close>

text \<open>
  The fields the two copies share. \<open>devices\<close> is \<open>None\<close> while the field is
  \<open>undefined\<close>. \<open>sent\<close> is not a field of the class: it lists the requests
  handed to \<open>myqRetrieve\<close> so far, oldest first.
\<close>

record api =
  devices :: "myQDevice list option"
  accessToken :: "string option"
  refreshToken :: string
  tokenScope :: string
  apiReturnStatus :: nat
  email :: "string option"
  password :: "string option"
  accounts :: "string list"
  region :: nat
  sent :: "request list"

subsection \<open>Hostnames and regions\<close>

definition myQRegions :: "string list" where
  "myQRegions = ['''', ''east'', ''west'']"

text \<open>\<open>hostname.split(".")\<close> and \<open>hostname.join(".")\<close>.\<close>

fun split_dot :: "string \<Rightarrow> string list" where
  "split_dot [] = [[]]"
| "split_dot (c # cs) =
     (if c = CHR ''.'' then [] # split_dot cs
      else (case split_dot cs of [] \<Rightarrow> [[c]] | l # ls \<Rightarrow> (c # l) # ls))"

fun join_dot :: "string list \<Rightarrow> string" where
  "join_dot [] = []"
| "join_dot [l] = l"
| "join_dot (l # ls) = l @ ''.'' @ join_dot ls"

text \<open>\<open>xs.join(sep)\<close>.\<close>

fun join_sep :: "string \<Rightarrow> string list \<Rightarrow> string" where
  "join_sep sep [] = []"
| "join_sep sep [l] = l"
| "join_sep sep (l # ls) = l @ sep @ join_sep sep ls"

definition endsWith :: "string \<Rightarrow> string \<Rightarrow> bool" where
  "endsWith l sfx = (length sfx \<le> length l \<and> drop (length l - length sfx) l = sfx)"

text \<open>The characters that \<open>.\<close> of a regular expression does not match.\<close>

definition lineTerminator :: "char \<Rightarrow> bool" where
  "lineTerminator c = (c = CHR 0x0A \<or> c = CHR 0x0D)"

text \<open>
  \<open>regionRegex.test(label)\<close> for the expression \<open>^.*-(|east|west)$\<close> built from
  \<open>myQRegions.join("|")\<close>: the label ends with a dash followed by a region name
  (the empty name included), and no line terminator stands before that dash.
\<close>

definition regionRegex_test :: "string \<Rightarrow> bool" where
  "regionRegex_test l =
     list_ex (\<lambda>r. endsWith l (''-'' @ r) \<and>
                 \<not> list_ex lineTerminator (take (length l - length (''-'' @ r)) l))
       myQRegions"

text \<open>\<open>myQRegions[region]\<close> in a string concatenation.\<close>

definition regionName :: "nat \<Rightarrow> string" where
  "regionName r = (if r < length myQRegions then myQRegions ! r else ''undefined'')"

text \<open>
  The first step of \<open>retrieve\<close>: the region index and the hostname after it. The
  assignment to \<open>retrieveUrl.hostname\<close> is taken to store the joined labels.
\<close>

definition rewriteHostname :: "nat \<Rightarrow> nat \<Rightarrow> string \<Rightarrow> nat \<times> string" where
  "rewriteHostname isRetry reg host =
     (case split_dot host of
        [] \<Rightarrow> (reg, host)
      | l # ls \<Rightarrow>
          if \<not> regionRegex_test l then
            (let reg' = (if isRetry \<noteq> 0 then (reg + 1) mod length myQRegions else reg)
             in (reg', join_dot ((l @ (if reg' \<noteq> 0 then ''-'' @ regionName reg' else '''')) # ls)))
          else (reg, join_dot (l # ls)))"

subsection \<open>The request executor\<close>

definition ok :: "response \<Rightarrow> bool" where
  "ok r = (200 \<le> status r \<and> status r \<le> 299)"

definition isRedirect :: "nat \<Rightarrow> bool" where
  "isRedirect code = (code \<in> set [301, 302, 303, 307, 308])"

definition isCredentialsIssue :: "nat \<Rightarrow> bool" where
  "isCredentialsIssue code = (code \<in> set [400, 401])"

definition isServerSideIssue_A :: "nat \<Rightarrow> bool" where
  "isServerSideIssue_A code = (code \<in> set [429, 500, 502, 503, 504, 521, 522])"

definition isServerSideIssue_B :: "nat \<Rightarrow> bool" where
  "isServerSideIssue_B code = (code \<in> set [429, 500, 502, 503, 504])"

text \<open>
  \<open>retrieve\<close>. The two copies differ in the list of \<open>isServerSideIssue\<close>, which
  is the first parameter here, and in the request headers, which are not modelled (the
  transport's answer is \<open>net env k\<close> whatever the request holds). The closure
  \<open>retry\<close> is written out at each of its calls: below 3 it calls \<open>retrieve\<close>
  again with the original URL and \<open>isRetry + 1\<close>, otherwise it returns \<open>null\<close>.
  Messages to the logger are not modelled.

  The \<open>catch\<close> block: for a \<open>FetchError\<close> the \<open>switch\<close> on
  \<open>error.code\<close> calls \<open>retry\<close> in each of its named cases
  (\<open>ECONNREFUSED\<close>, \<open>ERR_HTTP2_STREAM_CANCEL\<close>, \<open>ECONNRESET\<close>,
  \<open>ENOTFOUND\<close>, \<open>ETIMEDOUT\<close>, \<open>UNABLE_TO_VERIFY_LEAF_SIGNATURE\<close>) with a
  message of its own; the \<open>default\<close> case builds its message from
  \<open>error.code.toString()\<close> before it calls \<open>retry\<close>, which raises a
  \<open>TypeError\<close> when the error carries no code. That exception leaves \<open>retrieve\<close>,
  and an exception of the nested call that \<open>retry\<close> returns is not caught by the
  caller's \<open>try\<close> either (the promise is returned, not awaited). Any other error
  object goes to \<open>retry\<close>.
\<close>

function retrieve ::
  "(nat \<Rightarrow> bool) \<Rightarrow> env \<Rightarrow> url \<Rightarrow> bool \<Rightarrow> nat \<Rightarrow> 'a api_scheme
     \<Rightarrow> (error + response option) \<times> 'a api_scheme" where
  "retrieve isServerSideIssue env u decodeResponse isRetry s =
     (let s1 = s\<lparr>region := fst (rewriteHostname isRetry (region s) (hostname u))\<rparr>;
          retrieveUrl = u\<lparr>hostname := snd (rewriteHostname isRetry (region s) (hostname u))\<rparr>;
          s2 = s1\<lparr>apiReturnStatus := 0\<rparr>;
          s3 = s2\<lparr>sent := sent s2 @ [\<lparr>req_url = retrieveUrl, req_region = region s2\<rparr>]\<rparr>
      in case net env (length (sent s2)) of
           Response r \<Rightarrow>
             (let s4 = s3\<lparr>apiReturnStatus := status r\<rparr>
              in if \<not> decodeResponse \<or> ok r \<or> isRedirect (status r) then (Inr (Some r), s4)
                 else if isCredentialsIssue (status r) then
                   (if isRetry < 3
                    then retrieve isServerSideIssue env u decodeResponse (isRetry + 1) s4
                    else (Inr None, s4))
                 else if status r = 403 then (Inr None, s4)
                 else if isServerSideIssue (status r) then
                   (if isRetry < 3
                    then retrieve isServerSideIssue env u decodeResponse (isRetry + 1) s4
                    else (Inr None, s4))
                 else (Inr None, s4))
         | FetchError code \<Rightarrow>
             (case code of
                None \<Rightarrow> (Inl TypeError, s3)
              | Some c \<Rightarrow>
                  (if isRetry < 3
                   then retrieve isServerSideIssue env u decodeResponse (isRetry + 1) s3
                   else (Inr None, s3)))
         | OtherError \<Rightarrow>
             (if isRetry < 3
              then retrieve isServerSideIssue env u decodeResponse (isRetry + 1) s3
              else (Inr None, s3)))"
  by pat_completeness auto
termination
  by (relation "measure (\<lambda>(srv, env, u, d, isRetry, s). 3 - isRetry)") auto

declare retrieve.simps [simp del]

subsection \<open>Helpers shared by the two copies\<close>

text \<open>The truth value of a \<open>string | null\<close> in a condition: \<open>null\<close> and the empty
  string are falsy.\<close>

definition truthy :: "string option \<Rightarrow> bool" where
  "truthy x = (x \<noteq> None \<and> x \<noteq> Some [])"

text \<open>\<open>new URL(location as string, base)\<close>: a missing header is the text
  \<open>null\<close>, a relative reference that replaces the last segment of the base's path.\<close>

definition resolveURL :: "location \<Rightarrow> url \<Rightarrow> error + url" where
  "resolveURL loc base =
     (case loc of
        NoLocation \<Rightarrow>
          Inr (base\<lparr>pathname := rev (dropWhile (\<lambda>c. c \<noteq> CHR ''/'') (rev (pathname base))) @ ''null'',
                    searchParams := []\<rparr>)
      | Invalid \<Rightarrow> Inl TypeError
      | Relative p \<Rightarrow> Inr (base\<lparr>pathname := p, searchParams := []\<rparr>)
      | Absolute u \<Rightarrow> Inr u)"

text \<open>\<open>new URL(response.headers.get("location") ?? "")\<close>: only an absolute URL
  parses without a base.\<close>

definition parseURL :: "location \<Rightarrow> error + url" where
  "parseURL loc = (case loc of Absolute u \<Rightarrow> Inr u | _ \<Rightarrow> Inl TypeError)"

text \<open>\<open>redirectUrl.searchParams.get(key)\<close>.\<close>

definition searchParams_get :: "url \<Rightarrow> string \<Rightarrow> string option" where
  "searchParams_get u k = map_of (searchParams u) k"

text \<open>The fixed endpoints. Query parameters, headers and bodies of requests are not
  modelled.\<close>

definition authEndpoint :: url where
  "authEndpoint = \<lparr>hostname = ''partner-identity.myq-cloud.com'', pathname = ''/connect/authorize'',
     searchParams = []\<rparr>"

definition tokenEndpoint :: url where
  "tokenEndpoint = \<lparr>hostname = ''partner-identity.myq-cloud.com'', pathname = ''/connect/token'',
     searchParams = []\<rparr>"

definition accountsEndpoint :: url where
  "accountsEndpoint = \<lparr>hostname = ''accounts.myq-cloud.com'', pathname = ''/api/v6.0/accounts'',
     searchParams = []\<rparr>"

definition devicesEndpoint :: "string \<Rightarrow> url" where
  "devicesEndpoint accountId = \<lparr>hostname = ''devices.myq-cloud.com'',
     pathname = ''/api/v5.2/Accounts/'' @ accountId @ ''/Devices'', searchParams = []\<rparr>"

text \<open>The check on the \<open>set-cookie\<close> headers of a login response:
  \<open>!raw()["set-cookie"] || raw()["set-cookie"].length < n\<close>.\<close>

definition tooFewCookies :: "response \<Rightarrow> nat \<Rightarrow> bool" where
  "tooFewCookies r n = (case set_cookie r of None \<Rightarrow> True | Some cs \<Rightarrow> length cs < n)"

text \<open>\<open>getAccounts\<close>, the same in both copies but for the \<open>retrieve\<close> it calls.\<close>

definition getAccounts ::
  "(nat \<Rightarrow> bool) \<Rightarrow> env \<Rightarrow> 'a api_scheme \<Rightarrow> (error + bool) \<times> 'a api_scheme" where
  "getAccounts srv env s =
     (case retrieve srv env accountsEndpoint True 0 s of
        (Inl e, s1) \<Rightarrow> (Inl e, s1)
      | (Inr None, s1) \<Rightarrow> (Inr False, s1)
      | (Inr (Some response), s1) \<Rightarrow>
          (case json_accounts response of
             None \<Rightarrow> (Inr False, s1)
           | Some ids \<Rightarrow> (Inr True, s1\<lparr>accounts := ids\<rparr>)))"

text \<open>
  The loop of \<open>refreshDevices\<close> over the account identifiers: it stops with
  \<open>None\<close> at the first account whose request returns \<open>null\<close>, an exception of
  a request leaves it, and otherwise it appends the account's devices to
  \<open>newDeviceList\<close>.
\<close>

fun deviceLoop ::
  "(nat \<Rightarrow> bool) \<Rightarrow> env \<Rightarrow> string list \<Rightarrow> myQDevice list \<Rightarrow> 'a api_scheme
     \<Rightarrow> (error + myQDevice list option) \<times> 'a api_scheme" where
  "deviceLoop srv env [] newDeviceList s = (Inr (Some newDeviceList), s)"
| "deviceLoop srv env (accountId # rest) newDeviceList s =
     (case retrieve srv env (devicesEndpoint accountId) True 0 s of
        (Inl e, s1) \<Rightarrow> (Inl e, s1)
      | (Inr None, s1) \<Rightarrow> (Inr None, s1)
      | (Inr (Some response), s1) \<Rightarrow>
          deviceLoop srv env rest (newDeviceList @ json_items response) s1)"

text \<open>\<open>toUpperCase\<close> on the ASCII letters; other characters stay as they are.\<close>

definition toUpperCase :: "string \<Rightarrow> string" where
  "toUpperCase str =
     map (\<lambda>c. case map_of (zip ''abcdefghijklmnopqrstuvwxyz'' ''ABCDEFGHIJKLMNOPQRSTUVWXYZ'') c of
                None \<Rightarrow> c
              | Some C \<Rightarrow> C) str"

text \<open>The last step of \<open>getDevice\<close>, after its guards.\<close>

definition findDevice :: "myQDevice list \<Rightarrow> string \<Rightarrow> myQDevice option" where
  "findDevice ds serial =
     find (\<lambda>x. toUpperCase (serial_number x) = toUpperCase serial) ds"

text \<open>The check of \<open>execute\<close> on what the command request returned.\<close>

definition executeCheck ::
  "(error + response option) \<times> 'a api_scheme \<Rightarrow> (error + bool) \<times> 'a api_scheme" where
  "executeCheck rs =
     (case rs of
        (Inl e, s) \<Rightarrow> (Inl e, s)
      | (Inr None, s) \<Rightarrow>
          if apiReturnStatus s = 403 then (Inr False, s)
          else (Inr False, s\<lparr>accessToken := None, accounts := []\<rparr>)
      | (Inr (Some response), s) \<Rightarrow> (Inr True, s))"

subsection \<open>Copy A: refresh by timer\<close>

text \<open>\<open>refreshTimer\<close> holds the delay, in milliseconds, of the pending timer that
  will call \<open>refreshAccessToken\<close>; the call itself is not part of the model.\<close>

record api_A = api +
  refreshTimer :: "int option"

definition constructor_A :: api_A where
  "constructor_A = \<lparr>devices = None, accessToken = None, refreshToken = '''', tokenScope = '''',
     apiReturnStatus = 0, email = None, password = None, accounts = [], region = 0, sent = [],
     refreshTimer = None\<rparr>"

definition setTokenRefreshTimer_A :: "int \<Rightarrow> api_A \<Rightarrow> api_A" where
  "setTokenRefreshTimer_A amount s = s\<lparr>refreshTimer := Some ((amount - (3 * 60)) * 1000)\<rparr>"

text \<open>\<open>generateLoginCookies\<close>: the \<open>name=value\<close> parts of the \<open>cookie\<close>
  and \<open>set-cookie\<close> headers of a response, joined. Copy A sends the result as the
  \<open>Cookie\<close> header of its next login request; it does not enter the model of the
  requests.\<close>

definition generateLoginCookies :: "response \<Rightarrow> string" where
  "generateLoginCookies r =
     join_sep ''; ''
       (map (takeWhile (\<lambda>c. c \<noteq> CHR '';''))
          ((case cookie r of None \<Rightarrow> [] | Some cs \<Rightarrow> cs) @
           (case set_cookie r of None \<Rightarrow> [] | Some cs \<Rightarrow> cs)))"

definition oauthGetAuthPage_A :: "env \<Rightarrow> api_A \<Rightarrow> (error + response option) \<times> api_A" where
  "oauthGetAuthPage_A env s =
     (case retrieve isServerSideIssue_A env authEndpoint True 0 s of
        (Inl e, s1) \<Rightarrow> (Inl e, s1)
      | (Inr None, s1) \<Rightarrow> (Inr None, s1)
      | (Inr (Some response), s1) \<Rightarrow>
          if tooFewCookies response 3 then (Inr None, s1)
          else (case resolveURL (location response) (resp_url response) of
                  Inl e \<Rightarrow> (Inl e, s1)
                | Inr redirectUrl \<Rightarrow> retrieve isServerSideIssue_A env redirectUrl True 0 s1))"

definition oauthLogin_A :: "env \<Rightarrow> response \<Rightarrow> api_A \<Rightarrow> (error + response option) \<times> api_A" where
  "oauthLogin_A env authPage s =
     (if \<not> truthy (email s) \<or> \<not> truthy (password s) then (Inr None, s)
      else if \<not> truthy (requestVerificationToken authPage) then (Inr None, s)
      else (case retrieve isServerSideIssue_A env (resp_url authPage) True 0 s of
              (Inl e, s1) \<Rightarrow> (Inl e, s1)
            | (Inr None, s1) \<Rightarrow> (Inr None, s1)
            | (Inr (Some response), s1) \<Rightarrow>
                if tooFewCookies response 2 then (Inr None, s1) else (Inr (Some response), s1)))"

definition oauthRedirect_A :: "env \<Rightarrow> response \<Rightarrow> api_A \<Rightarrow> (error + response option) \<times> api_A" where
  "oauthRedirect_A env loginResponse s =
     (case resolveURL (location loginResponse) (resp_url loginResponse) of
        Inl e \<Rightarrow> (Inl e, s)
      | Inr redirectUrl \<Rightarrow> retrieve isServerSideIssue_A env redirectUrl True 0 s)"

definition getOAuthToken_A :: "env \<Rightarrow> api_A \<Rightarrow> (error + string option) \<times> api_A" where
  "getOAuthToken_A env s =
     (case oauthGetAuthPage_A env (s\<lparr>refreshTimer := None\<rparr>) of
        (Inl e, s1) \<Rightarrow> (Inl e, s1)
      | (Inr None, s1) \<Rightarrow> (Inr None, s1)
      | (Inr (Some authPage), s1) \<Rightarrow>
     (case oauthLogin_A env authPage s1 of
        (Inl e, s2) \<Rightarrow> (Inl e, s2)
      | (Inr None, s2) \<Rightarrow> (Inr None, s2)
      | (Inr (Some loginResponse), s2) \<Rightarrow>
     (case oauthRedirect_A env loginResponse s2 of
        (Inl e, s3) \<Rightarrow> (Inl e, s3)
      | (Inr None, s3) \<Rightarrow> (Inr None, s3)
      | (Inr (Some response), s3) \<Rightarrow>
     (case parseURL (location response) of
        Inl e \<Rightarrow> (Inl e, s3)
      | Inr redirectUrl \<Rightarrow>
     (case retrieve isServerSideIssue_A env tokenEndpoint True 0 s3 of
        (Inl e, s4) \<Rightarrow> (Inl e, s4)
      | (Inr None, s4) \<Rightarrow> (Inr None, s4)
      | (Inr (Some tokenResponse), s4) \<Rightarrow>
          (let token = json_token tokenResponse;
               s5 = s4\<lparr>refreshToken := refresh_token token,
                        tokenScope := (case searchParams_get redirectUrl ''scope'' of
                                         None \<Rightarrow> [] | Some sc \<Rightarrow> sc)\<rparr>;
               s6 = setTokenRefreshTimer_A (expires_in token) s5
           in (Inr (Some (token_type token @ '' '' @ access_token token)), s6)))))))"

definition refreshOAuthToken_A :: "env \<Rightarrow> api_A \<Rightarrow> (error + bool) \<times> api_A" where
  "refreshOAuthToken_A env s =
     (case retrieve isServerSideIssue_A env tokenEndpoint True 0 s of
        (Inl e, s1) \<Rightarrow> (Inl e, s1)
      | (Inr None, s1) \<Rightarrow> (Inr False, s1)
      | (Inr (Some response), s1) \<Rightarrow>
          (let token = json_token response;
               s2 = s1\<lparr>accessToken := Some (token_type token @ '' '' @ access_token token),
                        refreshToken := refresh_token token,
                        tokenScope := (case scope token of None \<Rightarrow> tokenScope s1 | Some sc \<Rightarrow> sc)\<rparr>
           in (Inr True, setTokenRefreshTimer_A (expires_in token) s2)))"

definition acquireAccessToken_A :: "env \<Rightarrow> api_A \<Rightarrow> (error + bool) \<times> api_A" where
  "acquireAccessToken_A env s =
     (let s0 = (if truthy (accessToken s) then s\<lparr>accessToken := None, accounts := []\<rparr> else s)
      in case getOAuthToken_A env s0 of
           (Inl e, s1) \<Rightarrow> (Inl e, s1)
         | (Inr token, s1) \<Rightarrow>
             if \<not> truthy token then (Inr False, s1)
             else (case getAccounts isServerSideIssue_A env (s1\<lparr>accessToken := token\<rparr>) of
                     (Inl e, s2) \<Rightarrow> (Inl e, s2)
                   | (Inr False, s2) \<Rightarrow> (Inr False, s2\<lparr>accessToken := None, accounts := []\<rparr>)
                   | (Inr True, s2) \<Rightarrow> (Inr True, s2)))"

definition refreshAccessToken_A :: "env \<Rightarrow> api_A \<Rightarrow> (error + bool) \<times> api_A" where
  "refreshAccessToken_A env s =
     (if accounts s = [] \<or> \<not> truthy (accessToken s) then acquireAccessToken_A env s
      else (case refreshOAuthToken_A env s of
              (Inl e, s1) \<Rightarrow> (Inl e, s1)
            | (Inr True, s1) \<Rightarrow> (Inr True, s1)
            | (Inr False, s1) \<Rightarrow> acquireAccessToken_A env s1))"

definition refreshDevices_A :: "env \<Rightarrow> api_A \<Rightarrow> (error + bool) \<times> api_A" where
  "refreshDevices_A env s =
     (if \<not> truthy (password s) then (Inr False, s)
      else (case refreshAccessToken_A env s of
              (Inl e, s1) \<Rightarrow> (Inl e, s1)
            | (Inr False, s1) \<Rightarrow> (Inr False, s1)
            | (Inr True, s1) \<Rightarrow>
          (case getAccounts isServerSideIssue_A env s1 of
              (Inl e, s2) \<Rightarrow> (Inl e, s2)
            | (Inr False, s2) \<Rightarrow> (Inr False, s2\<lparr>accessToken := None, accounts := []\<rparr>)
            | (Inr True, s2) \<Rightarrow>
          (case deviceLoop isServerSideIssue_A env (accounts s2) [] s2 of
              (Inl e, s3) \<Rightarrow> (Inl e, s3)
            | (Inr None, s3) \<Rightarrow> (Inr False, s3\<lparr>accessToken := None, accounts := []\<rparr>)
            | (Inr (Some newDeviceList), s3) \<Rightarrow>
                (Inr True, s3\<lparr>devices := Some newDeviceList\<rparr>)))))"

definition login_A :: "env \<Rightarrow> string \<Rightarrow> string \<Rightarrow> api_A \<Rightarrow> (error + bool) \<times> api_A" where
  "login_A env em pw s =
     refreshDevices_A env (s\<lparr>email := Some em, password := Some pw, accessToken := None\<rparr>)"

text \<open>
  \<open>deviceMap[device.device_family]\<close> of copy A: the three keys of the object
  literal, and the property names every object inherits, whose values are truthy and have
  no \<open>host\<close> or \<open>path\<close> (they read as \<open>undefined\<close> in the URL).
\<close>

definition objectPrototypeKeys :: "string list" where
  "objectPrototypeKeys = [''constructor'', ''__proto__'', ''hasOwnProperty'', ''isPrototypeOf'',
     ''propertyIsEnumerable'', ''toLocaleString'', ''toString'', ''valueOf'',
     ''__defineGetter__'', ''__defineSetter__'', ''__lookupGetter__'', ''__lookupSetter__'']"

definition deviceMap :: "string \<Rightarrow> string \<times> string" where
  "deviceMap family =
     (if family = ''default'' \<or> family = ''garagedoor'' then (''gdo'', ''door_openers'')
      else if family = ''lamp'' then (''lamp'', ''lamps'')
      else if family \<in> set objectPrototypeKeys then (''undefined'', ''undefined'')
      else (''gdo'', ''door_openers''))"

definition commandEndpoint_A :: "myQDevice \<Rightarrow> string \<Rightarrow> url" where
  "commandEndpoint_A device command =
     \<lparr>hostname = ''account-devices-'' @ fst (deviceMap (device_family device)) @ ''.myq-cloud.com'',
      pathname = ''/api/v5.2/Accounts/'' @ account_id device @ ''/'' @
                 snd (deviceMap (device_family device)) @ ''/'' @ serial_number device @ ''/'' @ command,
      searchParams = []\<rparr>"

definition execute_A :: "env \<Rightarrow> myQDevice \<Rightarrow> string \<Rightarrow> api_A \<Rightarrow> (error + bool) \<times> api_A" where
  "execute_A env device command s =
     (if \<not> truthy (password s) then (Inr False, s)
      else (case refreshAccessToken_A env s of
              (Inl e, s1) \<Rightarrow> (Inl e, s1)
            | (Inr False, s1) \<Rightarrow> (Inr False, s1)
            | (Inr True, s1) \<Rightarrow>
                executeCheck
                  (retrieve isServerSideIssue_A env (commandEndpoint_A device command) True 0 s1)))"

definition getDevice_A :: "string \<Rightarrow> api_A \<Rightarrow> myQDevice option" where
  "getDevice_A serial s =
     (if \<not> truthy (password s) then None
      else (case devices s of
              None \<Rightarrow> None
            | Some ds \<Rightarrow> if length serial \<le> 0 then None else findDevice ds serial))"

subsection \<open>Copy B: time stamps and throttling\<close>

text \<open>
  The three time stamps are declared without a value, so they are \<open>undefined\<close>
  (\<open>None\<close>) until first assigned. \<open>ticks\<close> is not a field of the class: it counts
  the readings of \<open>Date.now()\<close> made so far.
\<close>

record api_B = api +
  refreshInterval :: int
  accessTokenTimestamp :: "int option"
  lastAuthenticateCall :: "int option"
  lastRefreshDevicesCall :: "int option"
  ticks :: nat

definition constructor_B :: api_B where
  "constructor_B = \<lparr>devices = None, accessToken = None, refreshToken = '''', tokenScope = '''',
     apiReturnStatus = 0, email = None, password = None, accounts = [], region = 0, sent = [],
     refreshInterval = 0, accessTokenTimestamp = None, lastAuthenticateCall = None,
     lastRefreshDevicesCall = None, ticks = 0\<rparr>"

definition Date_now :: "env \<Rightarrow> api_B \<Rightarrow> int \<times> api_B" where
  "Date_now env s = (clock env (ticks s), s\<lparr>ticks := ticks s + 1\<rparr>)"

text \<open>\<open>(now - stamp) < bound\<close> and \<open>(now - stamp) > bound\<close>: with an undefined
  time stamp the difference is \<open>NaN\<close> and both comparisons are false.\<close>

definition elapsedLess :: "int \<Rightarrow> int option \<Rightarrow> int \<Rightarrow> bool" where
  "elapsedLess now stamp bound = (case stamp of None \<Rightarrow> False | Some t \<Rightarrow> now - t < bound)"

definition elapsedMore :: "int \<Rightarrow> int option \<Rightarrow> int \<Rightarrow> bool" where
  "elapsedMore now stamp bound = (case stamp of None \<Rightarrow> False | Some t \<Rightarrow> now - t > bound)"

text \<open>The truth value of a time stamp in a condition: \<open>undefined\<close> and 0 are falsy.\<close>

definition truthyNumber :: "int option \<Rightarrow> bool" where
  "truthyNumber x = (x \<noteq> None \<and> x \<noteq> Some 0)"

text \<open>The lines that follow the assignment of \<open>token.expires_in\<close> to
  \<open>refreshInterval\<close> in \<open>getOAuthToken\<close> and in \<open>refreshOAuthToken\<close> of
  copy B: seven minutes are taken off, and the result is raised to five minutes.\<close>

definition adjustRefreshInterval_B :: "api_B \<Rightarrow> api_B" where
  "adjustRefreshInterval_B s =
     (let s1 = s\<lparr>refreshInterval := refreshInterval s - 420\<rparr>
      in if refreshInterval s1 < 300 then s1\<lparr>refreshInterval := 300\<rparr> else s1)"

text \<open>\<open>trimSetCookie\<close>: a missing header is wrapped into \<open>[undefined]\<close>, and
  \<open>undefined.split\<close> raises a \<open>TypeError\<close>.\<close>

definition trimSetCookie :: "string list option \<Rightarrow> error + string" where
  "trimSetCookie setCookie =
     (case setCookie of
        None \<Rightarrow> Inl TypeError
      | Some cs \<Rightarrow> Inr (join_sep ''; '' (map (takeWhile (\<lambda>c. c \<noteq> CHR '';'')) cs)))"

definition oauthGetAuthPage_B :: "env \<Rightarrow> api_B \<Rightarrow> (error + response option) \<times> api_B" where
  "oauthGetAuthPage_B env s = retrieve isServerSideIssue_B env authEndpoint True 0 s"

definition oauthLogin_B :: "env \<Rightarrow> response \<Rightarrow> api_B \<Rightarrow> (error + response option) \<times> api_B" where
  "oauthLogin_B env authPage s =
     (if \<not> truthy (email s) \<or> \<not> truthy (password s) then (Inr None, s)
      else (case trimSetCookie (set_cookie authPage) of
              Inl e \<Rightarrow> (Inl e, s)
            | Inr cookieHeader \<Rightarrow>
                if \<not> truthy (requestVerificationToken authPage) then (Inr None, s)
                else (case retrieve isServerSideIssue_B env (resp_url authPage) True 0 s of
                        (Inl e, s1) \<Rightarrow> (Inl e, s1)
                      | (Inr None, s1) \<Rightarrow> (Inr None, s1)
                      | (Inr (Some response), s1) \<Rightarrow>
                          if tooFewCookies response 2 then (Inr None, s1)
                          else (Inr (Some response), s1))))"

definition oauthRedirect_B :: "env \<Rightarrow> response \<Rightarrow> api_B \<Rightarrow> (error + response option) \<times> api_B" where
  "oauthRedirect_B env loginResponse s =
     (case resolveURL (location loginResponse) (resp_url loginResponse) of
        Inl e \<Rightarrow> (Inl e, s)
      | Inr redirectUrl \<Rightarrow>
          (case trimSetCookie (set_cookie loginResponse) of
             Inl e \<Rightarrow> (Inl e, s)
           | Inr cookieHeader \<Rightarrow> retrieve isServerSideIssue_B env redirectUrl True 0 s))"

definition getOAuthToken_B :: "env \<Rightarrow> api_B \<Rightarrow> (error + string option) \<times> api_B" where
  "getOAuthToken_B env s =
     (case oauthGetAuthPage_B env s of
        (Inl e, s1) \<Rightarrow> (Inl e, s1)
      | (Inr None, s1) \<Rightarrow> (Inr None, s1)
      | (Inr (Some authPage), s1) \<Rightarrow>
     (case oauthLogin_B env authPage s1 of
        (Inl e, s2) \<Rightarrow> (Inl e, s2)
      | (Inr None, s2) \<Rightarrow> (Inr None, s2)
      | (Inr (Some loginResponse), s2) \<Rightarrow>
     (case oauthRedirect_B env loginResponse s2 of
        (Inl e, s3) \<Rightarrow> (Inl e, s3)
      | (Inr None, s3) \<Rightarrow> (Inr None, s3)
      | (Inr (Some response), s3) \<Rightarrow>
     (case parseURL (location response) of
        Inl e \<Rightarrow> (Inl e, s3)
      | Inr redirectUrl \<Rightarrow>
     (case retrieve isServerSideIssue_B env tokenEndpoint True 0 s3 of
        (Inl e, s4) \<Rightarrow> (Inl e, s4)
      | (Inr None, s4) \<Rightarrow> (Inr None, s4)
      | (Inr (Some tokenResponse), s4) \<Rightarrow>
          (let token = json_token tokenResponse;
               s5 = s4\<lparr>refreshInterval := expires_in token,
                        refreshToken := refresh_token token,
                        tokenScope := (case searchParams_get redirectUrl ''scope'' of
                                         None \<Rightarrow> [] | Some sc \<Rightarrow> sc)\<rparr>;
               s6 = adjustRefreshInterval_B s5
           in (Inr (Some (token_type token @ '' '' @ access_token token)), s6)))))))"

definition refreshOAuthToken_B :: "env \<Rightarrow> api_B \<Rightarrow> (error + bool) \<times> api_B" where
  "refreshOAuthToken_B env s =
     (case retrieve isServerSideIssue_B env tokenEndpoint True 0 s of
        (Inl e, s1) \<Rightarrow> (Inl e, s1)
      | (Inr None, s1) \<Rightarrow> (Inr False, s1)
      | (Inr (Some response), s1) \<Rightarrow>
          (let token = json_token response;
               s2 = s1\<lparr>accessToken := Some (token_type token @ '' '' @ access_token token)\<rparr>;
               (now, s3) = Date_now env s2;
               s4 = s3\<lparr>accessTokenTimestamp := Some now,
                        refreshInterval := expires_in token,
                        refreshToken := refresh_token token,
                        tokenScope := (case scope token of None \<Rightarrow> tokenScope s3 | Some sc \<Rightarrow> sc)\<rparr>
           in (Inr True, adjustRefreshInterval_B s4)))"

definition acquireAccessToken_B :: "env \<Rightarrow> api_B \<Rightarrow> (error + bool) \<times> api_B" where
  "acquireAccessToken_B env s =
     (let (now, sn) = Date_now env s;
          s0 = sn\<lparr>lastAuthenticateCall := Some now\<rparr>;
          s0' = (if truthy (accessToken s0) then s0\<lparr>accessToken := None, accounts := []\<rparr> else s0)
      in case getOAuthToken_B env s0' of
           (Inl e, s1) \<Rightarrow> (Inl e, s1)
         | (Inr token, s1) \<Rightarrow>
             if \<not> truthy token then (Inr False, s1)
             else (case getAccounts isServerSideIssue_B env
                          (s1\<lparr>accessToken := token, accessTokenTimestamp := Some now\<rparr>) of
                     (Inl e, s2) \<Rightarrow> (Inl e, s2)
                   | (Inr False, s2) \<Rightarrow> (Inr False, s2\<lparr>accessToken := None, accounts := []\<rparr>)
                   | (Inr True, s2) \<Rightarrow> (Inr True, s2)))"

definition refreshAccessToken_B :: "env \<Rightarrow> api_B \<Rightarrow> (error + bool) \<times> api_B" where
  "refreshAccessToken_B env s =
     (let (now, s0) = Date_now env s
      in if elapsedLess now (lastAuthenticateCall s0) (2 * 60 * 1000)
         then (Inr (accounts s0 \<noteq> [] \<and> truthy (accessToken s0)), s0)
         else if accounts s0 = [] \<or> \<not> truthy (accessToken s0) then acquireAccessToken_B env s0
         else if elapsedLess now (accessTokenTimestamp s0) (refreshInterval s0 * 1000)
         then (Inr True, s0)
         else (case refreshOAuthToken_B env s0 of
                 (Inl e, s1) \<Rightarrow> (Inl e, s1)
               | (Inr True, s1) \<Rightarrow> (Inr True, s1)
               | (Inr False, s1) \<Rightarrow> acquireAccessToken_B env s1))"

definition refreshDevices_B :: "env \<Rightarrow> api_B \<Rightarrow> (error + bool) \<times> api_B" where
  "refreshDevices_B env s =
     (if \<not> truthy (password s) then (Inr False, s)
      else (let (now, s0) = Date_now env s
            in if truthyNumber (lastRefreshDevicesCall s0) \<and>
                  elapsedLess now (lastRefreshDevicesCall s0) (2 * 1000)
               then (Inr (devices s0 \<noteq> None), s0)
               else (case refreshAccessToken_B env (s0\<lparr>lastRefreshDevicesCall := Some now\<rparr>) of
                       (Inl e, s1) \<Rightarrow> (Inl e, s1)
                     | (Inr False, s1) \<Rightarrow> (Inr False, s1)
                     | (Inr True, s1) \<Rightarrow>
                   (case getAccounts isServerSideIssue_B env s1 of
                       (Inl e, s2) \<Rightarrow> (Inl e, s2)
                     | (Inr False, s2) \<Rightarrow> (Inr False, s2\<lparr>accessToken := None, accounts := []\<rparr>)
                     | (Inr True, s2) \<Rightarrow>
                   (case deviceLoop isServerSideIssue_B env (accounts s2) [] s2 of
                       (Inl e, s3) \<Rightarrow> (Inl e, s3)
                     | (Inr None, s3) \<Rightarrow> (Inr False, s3\<lparr>accessToken := None, accounts := []\<rparr>)
                     | (Inr (Some newDeviceList), s3) \<Rightarrow>
                         (Inr True, s3\<lparr>devices := Some newDeviceList\<rparr>))))))"

definition login_B :: "env \<Rightarrow> string \<Rightarrow> string \<Rightarrow> api_B \<Rightarrow> (error + bool) \<times> api_B" where
  "login_B env em pw s =
     refreshDevices_B env
       (s\<lparr>email := Some em, password := Some pw, accessToken := None,
          lastAuthenticateCall := Some 0, lastRefreshDevicesCall := Some 0\<rparr>)"

definition commandEndpoint_B :: "myQDevice \<Rightarrow> string \<Rightarrow> url" where
  "commandEndpoint_B device command =
     (if device_family device = ''lamp''
      then \<lparr>hostname = ''account-devices-lamp.myq-cloud.com'',
            pathname = ''/api/v5.2/Accounts/'' @ account_id device @ ''/lamps/'' @
                       serial_number device @ ''/'' @ command,
            searchParams = []\<rparr>
      else \<lparr>hostname = ''account-devices-gdo.myq-cloud.com'',
            pathname = ''/api/v5.2/Accounts/'' @ account_id device @ ''/door_openers/'' @
                       serial_number device @ ''/'' @ command,
            searchParams = []\<rparr>)"

definition execute_B :: "env \<Rightarrow> myQDevice \<Rightarrow> string \<Rightarrow> api_B \<Rightarrow> (error + bool) \<times> api_B" where
  "execute_B env device command s =
     (if \<not> truthy (password s) then (Inr False, s)
      else (case refreshAccessToken_B env s of
              (Inl e, s1) \<Rightarrow> (Inl e, s1)
            | (Inr False, s1) \<Rightarrow> (Inr False, s1)
            | (Inr True, s1) \<Rightarrow>
                executeCheck
                  (retrieve isServerSideIssue_B env (commandEndpoint_B device command) True 0 s1)))"

text \<open>\<open>getDevice\<close> of copy B reads the clock only when a device list and a non-zero
  time stamp exist (the condition is evaluated left to right).\<close>

definition getDevice_B :: "env \<Rightarrow> string \<Rightarrow> api_B \<Rightarrow> myQDevice option \<times> api_B" where
  "getDevice_B env serial s =
     (if \<not> truthy (password s) then (None, s)
      else (case devices s of
              None \<Rightarrow> (None, s)
            | Some ds \<Rightarrow>
                if \<not> truthyNumber (lastRefreshDevicesCall s) then (None, s)
                else (let (now, s0) = Date_now env s
                      in if elapsedMore now (lastRefreshDevicesCall s0) (60 * 1000) then (None, s0)
                         else if length serial \<le> 0 then (None, s0)
                         else (findDevice ds serial, s0))))"

subsection \<open>Notions used to state the properties\<close>

text \<open>
  The state in which one attempt of \<open>retrieve\<close> leaves the client: the region
  chosen by the hostname rewrite, the recorded status (0 when the request raised), and the
  request added to the ones sent.
\<close>

definition afterAttempt :: "env \<Rightarrow> url \<Rightarrow> nat \<Rightarrow> 'a api_scheme \<Rightarrow> 'a api_scheme" where
  "afterAttempt env u isRetry s =
     s\<lparr>region := fst (rewriteHostname isRetry (region s) (hostname u)),
       apiReturnStatus := (case net env (length (sent s)) of Response r \<Rightarrow> status r | _ \<Rightarrow> 0),
       sent := sent s @ [\<lparr>req_url = u\<lparr>hostname := snd (rewriteHostname isRetry (region s) (hostname u))\<rparr>,
                          req_region = fst (rewriteHostname isRetry (region s) (hostname u))\<rparr>]\<rparr>"

text \<open>
  What \<open>retrieve\<close> decides on the outcome of one request, in the order of its tests:
  return the response, retry, return \<open>null\<close>, or raise. Lemma \<open>retrieve_unfold\<close>
  shows that \<open>retrieve\<close> is the function these two notions describe.
\<close>

datatype verdict = Return response | Retry | Fail | Raise error

definition classify :: "(nat \<Rightarrow> bool) \<Rightarrow> bool \<Rightarrow> outcome \<Rightarrow> verdict" where
  "classify srv decodeResponse out =
     (case out of
        Response r \<Rightarrow>
          if \<not> decodeResponse \<or> ok r \<or> isRedirect (status r) then Return r
          else if isCredentialsIssue (status r) then Retry
          else if status r = 403 then Fail
          else if srv (status r) then Retry
          else Fail
      | FetchError code \<Rightarrow> (case code of None \<Rightarrow> Raise TypeError | Some c \<Rightarrow> Retry)
      | OtherError \<Rightarrow> Retry)"

text \<open>
  An outcome that the code treats as a candidate for a retry: a transport error (a
  \<open>FetchError\<close> that carries a code, or another error object), or, when the response
  is decoded, an HTTP status 400 or 401 or one of the server-side status codes.
\<close>

definition candidateForRetry :: "(nat \<Rightarrow> bool) \<Rightarrow> bool \<Rightarrow> outcome \<Rightarrow> bool" where
  "candidateForRetry srv decodeResponse out =
     (case out of
        Response r \<Rightarrow> decodeResponse \<and> (status r = 400 \<or> status r = 401 \<or> srv (status r))
      | FetchError code \<Rightarrow> code \<noteq> None
      | OtherError \<Rightarrow> True)"


subsection \<open>Example worlds\<close>

definition example_token :: myQToken where
  "example_token = \<lparr>access_token = ''abc'', refresh_token = ''def'', token_type = ''Bearer'',
     expires_in = 3600, scope = None\<rparr>"

text \<open>A token that expires after one minute.\<close>

definition short_token :: myQToken where
  "short_token = \<lparr>access_token = ''abc'', refresh_token = ''def'', token_type = ''Bearer'',
     expires_in = 60, scope = None\<rparr>"

definition example_device :: myQDevice where
  "example_device = \<lparr>serial_number = ''GW0123456789'', device_family = ''garagedoor'',
     account_id = ''acc1'', name = ''Garage'', parent_device_id = None\<rparr>"

definition example_response :: "nat \<Rightarrow> response" where
  "example_response st = \<lparr>status = st, resp_url = accountsEndpoint, cookie = None,
     set_cookie = None, location = NoLocation, requestVerificationToken = None,
     json_token = example_token, json_accounts = None, json_items = []\<rparr>"

text \<open>A world where every request is refused, one where every request fails with a
  \<open>FetchError\<close> that carries no code, and one where every request is answered with
  the same status.\<close>

definition env_down :: env where
  "env_down = \<lparr>net = (\<lambda>k. FetchError (Some ''ECONNREFUSED'')), clock = (\<lambda>k. 0)\<rparr>"

definition env_codeless :: env where
  "env_codeless = \<lparr>net = (\<lambda>k. FetchError None), clock = (\<lambda>k. 0)\<rparr>"

definition env_status :: "nat \<Rightarrow> env" where
  "env_status st = \<lparr>net = (\<lambda>k. Response (example_response st)), clock = (\<lambda>k. 0)\<rparr>"

text \<open>A world that answers the requests with the outcomes of a list, in order, and lets
  every later request time out; its clock stands still.\<close>

definition script_env :: "outcome list \<Rightarrow> int \<Rightarrow> env" where
  "script_env script now =
     \<lparr>net = (\<lambda>k. if k < length script then script ! k else FetchError (Some ''ETIMEDOUT'')),
      clock = (\<lambda>k. now)\<rparr>"

definition loginPage :: url where
  "loginPage = authEndpoint\<lparr>pathname := ''/Account/Login''\<rparr>"

definition callbackPage :: url where
  "callbackPage = authEndpoint\<lparr>pathname := ''/connect/authorize/callback''\<rparr>"

definition appRedirect :: url where
  "appRedirect = \<lparr>hostname = ''android'', pathname = [],
     searchParams = [(''code'', ''xyz''), (''scope'', ''MyQ_Residential offline_access'')]\<rparr>"

definition token_ok :: outcome where
  "token_ok = Response (example_response 200)"

definition accounts_ok :: "string list \<Rightarrow> outcome" where
  "accounts_ok ids = Response ((example_response 200)\<lparr>json_accounts := Some ids\<rparr>)"

definition devices_ok :: outcome where
  "devices_ok = Response ((example_response 200)\<lparr>json_items := [example_device]\<rparr>)"

text \<open>The answers of a server to a successful \<open>login\<close> of copy A: the authorization
  endpoint redirects to the login page, the login page carries the verification token,
  the posted credentials are answered with a redirect and two cookies, the redirect leads
  back to the application with the authorization code, and the token, the accounts (asked
  twice) and the devices of the one account follow.\<close>

definition login_script_A :: "outcome list" where
  "login_script_A =
     [Response ((example_response 302)\<lparr>resp_url := authEndpoint,
         set_cookie := Some [''a=1; Path=/'', ''b=2'', ''c=3''], location := Relative ''/Account/Login''\<rparr>),
      Response ((example_response 200)\<lparr>resp_url := loginPage, requestVerificationToken := Some ''token''\<rparr>),
      Response ((example_response 302)\<lparr>resp_url := loginPage, set_cookie := Some [''d=4'', ''e=5''],
         location := Relative ''/connect/authorize/callback''\<rparr>),
      Response ((example_response 302)\<lparr>resp_url := callbackPage, location := Absolute appRedirect\<rparr>),
      token_ok, accounts_ok [''acc1''], accounts_ok [''acc1''], devices_ok]"

text \<open>The same for copy B, whose first request follows the redirect to the login page by
  itself.\<close>

definition login_script_B :: "outcome list" where
  "login_script_B =
     [Response ((example_response 200)\<lparr>resp_url := loginPage,
         set_cookie := Some [''a=1; Path=/'', ''b=2''], requestVerificationToken := Some ''token''\<rparr>),
      Response ((example_response 302)\<lparr>resp_url := loginPage, set_cookie := Some [''d=4'', ''e=5''],
         location := Relative ''/connect/authorize/callback''\<rparr>),
      Response ((example_response 302)\<lparr>resp_url := callbackPage, location := Absolute appRedirect\<rparr>),
      token_ok, accounts_ok [''acc1''], accounts_ok [''acc1''], devices_ok]"

definition request0 :: "url \<Rightarrow> request" where
  "request0 u = \<lparr>req_url = u, req_region = 0\<rparr>"

text \<open>The client of copy A after that login (lemma \<open>run_login_A\<close>), and the world in
  which the server goes on to answer three more requests: a token, the accounts, the
  devices.\<close>

definition logged_in_A :: api_A where
  "logged_in_A = \<lparr>devices = Some [example_device], accessToken = Some ''Bearer abc'',
     refreshToken = ''def'', tokenScope = ''MyQ_Residential offline_access'', apiReturnStatus = 200,
     email = Some ''me@example.org'', password = Some ''secret'', accounts = [''acc1''], region = 0,
     sent = [request0 authEndpoint, request0 loginPage, request0 loginPage, request0 callbackPage,
             request0 tokenEndpoint, request0 accountsEndpoint, request0 accountsEndpoint,
             request0 (devicesEndpoint ''acc1'')],
     refreshTimer = Some 3420000\<rparr>"

definition env_session_A :: env where
  "env_session_A = script_env (login_script_A @ [token_ok, accounts_ok [''acc1''], devices_ok]) 0"

text \<open>The client of copy B after its login at the time 1700000000000 (lemma
  \<open>run_login_B\<close>).\<close>

definition logged_in_B :: api_B where
  "logged_in_B = \<lparr>devices = Some [example_device], accessToken = Some ''Bearer abc'',
     refreshToken = ''def'', tokenScope = ''MyQ_Residential offline_access'', apiReturnStatus = 200,
     email = Some ''me@example.org'', password = Some ''secret'', accounts = [''acc1''], region = 0,
     sent = [request0 authEndpoint, request0 loginPage, request0 callbackPage,
             request0 tokenEndpoint, request0 accountsEndpoint, request0 accountsEndpoint,
             request0 (devicesEndpoint ''acc1'')],
     refreshInterval = 3180, accessTokenTimestamp = Some 1700000000000,
     lastAuthenticateCall = Some 1700000000000, lastRefreshDevicesCall = Some 1700000000000,
     ticks = 3\<rparr>"

definition env_session_B :: "int \<Rightarrow> env" where
  "env_session_B now = script_env login_script_B now"

section \<open>Properties\<close>

subsection \<open>Hostnames\<close>

lemma split_dot_ne: "split_dot h \<noteq> []"
  by (induction h) (auto split: list.splits)

lemma join_split_dot: "join_dot (split_dot h) = h"
proof (induction h)
  case Nil
  show ?case by simp
next
  case (Cons c cs)
  then show ?case
    by (cases "split_dot cs"; cases "tl (split_dot cs)") (auto simp: split_dot_ne)
qed

lemma rewrite_region:
  "fst (rewriteHostname i r h) =
     (if regionRegex_test (hd (split_dot h)) \<or> i = 0 then r else (r + 1) mod 3)"
  by (cases "split_dot h") (auto simp: rewriteHostname_def split_dot_ne Let_def myQRegions_def)

subsection \<open>One attempt of \<open>retrieve\<close>\<close>

lemma upd_status_sent:
  "s\<lparr>apiReturnStatus := a, sent := l\<rparr> = s\<lparr>sent := l, apiReturnStatus := a\<rparr>"
  by (cases s) simp

lemma sent_afterAttempt:
  "sent (afterAttempt env u i s) =
     sent s @ [\<lparr>req_url = u\<lparr>hostname := snd (rewriteHostname i (region s) (hostname u))\<rparr>,
                req_region = fst (rewriteHostname i (region s) (hostname u))\<rparr>]"
  by (simp add: afterAttempt_def)

lemma length_sent_afterAttempt: "length (sent (afterAttempt env u i s)) = Suc (length (sent s))"
  by (simp add: afterAttempt_def)

lemma region_afterAttempt:
  "region (afterAttempt env u i s) = fst (rewriteHostname i (region s) (hostname u))"
  by (simp add: afterAttempt_def)

lemma srvA_facts:
  "isServerSideIssue_A c \<Longrightarrow> \<not> (200 \<le> c \<and> c \<le> 299) \<and> \<not> isRedirect c \<and> c \<noteq> 403"
  by (auto simp: isServerSideIssue_A_def isRedirect_def)

lemma srvB_facts:
  "isServerSideIssue_B c \<Longrightarrow> \<not> (200 \<le> c \<and> c \<le> 299) \<and> \<not> isRedirect c \<and> c \<noteq> 403"
  by (auto simp: isServerSideIssue_B_def isRedirect_def)

lemma retrieve_retry:
  assumes "srv = isServerSideIssue_A \<or> srv = isServerSideIssue_B"
    and "candidateForRetry srv dec (net env (length (sent s)))"
  shows "retrieve srv env u dec isRetry s =
           (if isRetry < 3 then retrieve srv env u dec (isRetry + 1) (afterAttempt env u isRetry s)
            else (Inr None, afterAttempt env u isRetry s))"
  using assms
  apply (subst retrieve.simps)
  apply (auto simp: Let_def afterAttempt_def candidateForRetry_def upd_status_sent ok_def
      isCredentialsIssue_def isRedirect_def
      dest: srvA_facts srvB_facts split: outcome.splits option.splits)
  done

lemma retrieve_retry_more:
  assumes "srv = isServerSideIssue_A \<or> srv = isServerSideIssue_B"
    and "candidateForRetry srv dec (net env (length (sent s)))"
    and "i < 3" and "j = i + 1"
  shows "retrieve srv env u dec i s = retrieve srv env u dec j (afterAttempt env u i s)"
  using retrieve_retry[OF assms(1,2), of u i] assms(3,4) by simp

lemma retrieve_retry_last:
  assumes "srv = isServerSideIssue_A \<or> srv = isServerSideIssue_B"
    and "candidateForRetry srv dec (net env (length (sent s)))"
    and "\<not> i < 3"
  shows "retrieve srv env u dec i s = (Inr None, afterAttempt env u i s)"
  using retrieve_retry[OF assms(1,2), of u i] assms(3) by simp

text \<open>Four candidate outcomes in a row: the call makes its four attempts, numbered 0 to
  3, and returns \<open>null\<close>.\<close>

lemma retrieve_exhausts:
  assumes srv: "srv = isServerSideIssue_A \<or> srv = isServerSideIssue_B"
    and c: "\<forall>k<4. candidateForRetry srv dec (net env (length (sent s) + k))"
  shows "retrieve srv env u dec 0 s =
           (Inr None, afterAttempt env u 3 (afterAttempt env u 2 (afterAttempt env u 1 (afterAttempt env u 0 s))))"
proof -
  let ?s1 = "afterAttempt env u 0 s"
  let ?s2 = "afterAttempt env u 1 ?s1"
  let ?s3 = "afterAttempt env u 2 ?s2"
  have c0: "candidateForRetry srv dec (net env (length (sent s)))"
    using c[rule_format, of 0] by simp
  have l1: "length (sent ?s1) = length (sent s) + 1"
    by (simp add: length_sent_afterAttempt)
  have c1: "candidateForRetry srv dec (net env (length (sent ?s1)))"
    unfolding l1 using c[rule_format, of 1] by simp
  have l2: "length (sent ?s2) = length (sent s) + 2"
    by (simp add: length_sent_afterAttempt)
  have c2: "candidateForRetry srv dec (net env (length (sent ?s2)))"
    unfolding l2 using c[rule_format, of 2] by simp
  have l3: "length (sent ?s3) = length (sent s) + 3"
    by (simp add: length_sent_afterAttempt)
  have c3: "candidateForRetry srv dec (net env (length (sent ?s3)))"
    unfolding l3 using c[rule_format, of 3] by simp
  have "retrieve srv env u dec 0 s = retrieve srv env u dec 1 ?s1"
    by (rule retrieve_retry_more[OF srv c0]) simp_all
  also have "\<dots> = retrieve srv env u dec 2 ?s2"
    by (rule retrieve_retry_more[OF srv c1]) simp_all
  also have "\<dots> = retrieve srv env u dec 3 ?s3"
    by (rule retrieve_retry_more[OF srv c2]) simp_all
  also have "\<dots> = (Inr None, afterAttempt env u 3 ?s3)"
    by (rule retrieve_retry_last[OF srv c3]) simp
  finally show ?thesis .
qed

subsection \<open>The retry budget\<close>

text \<open>
  In either copy, a call of \<open>retrieve\<close> (entered with \<open>isRetry = 0\<close>) whose next
  four outcomes are all outcomes that the code retries (a \<open>FetchError\<close> with a code,
  another error object, or on a decoded response a status 400, 401 or a server-side status
  code of that copy) hands exactly four requests to the transport, the original attempt
  and three retries, and returns \<open>null\<close>.
\<close>

lemma retrieve_retry_budget:
  assumes "srv = isServerSideIssue_A \<or> srv = isServerSideIssue_B"
    and "\<forall>k<4. candidateForRetry srv decodeResponse (net env (length (sent s) + k))"
  shows "fst (retrieve srv env u decodeResponse 0 s) = Inr None \<and>
         length (sent (snd (retrieve srv env u decodeResponse 0 s))) = length (sent s) + 4"
  by (simp add: retrieve_exhausts[OF assms] length_sent_afterAttempt)

lemma retrieve_retry_budget_example:
  "fst (retrieve isServerSideIssue_A env_down accountsEndpoint True 0 constructor_A) = Inr None \<and>
   length (sent (snd (retrieve isServerSideIssue_A env_down accountsEndpoint True 0 constructor_A))) = 4"
  using retrieve_retry_budget[of isServerSideIssue_A True env_down constructor_A accountsEndpoint]
  by (simp add: candidateForRetry_def env_down_def constructor_A_def)

text \<open>
  A \<open>FetchError\<close> that carries no code is a transport error that the code does not
  retry: on any attempt, with any arguments, the call ends with that one request and a
  \<open>TypeError\<close>.
\<close>

lemma retrieve_raises:
  assumes "net env (length (sent s)) = FetchError None"
  shows "retrieve srv env u dec isRetry s = (Inl TypeError, afterAttempt env u isRetry s)"
  using assms
  by (subst retrieve.simps) (simp add: Let_def afterAttempt_def upd_status_sent)

text \<open>
  Claim C1. The claim says that a call of \<open>retrieve\<close> all of whose attempts end in a
  transport error makes four requests and returns \<open>null\<close>. The code departs from it
  where the transport raises a \<open>FetchError\<close> without a code: in both copies the first
  call of \<open>retrieve\<close> on a new client then sends one request and raises a
  \<open>TypeError\<close>, where the claim has four requests and \<open>null\<close>.
\<close>

theorem retrieve_codeless_error:
  "retrieve isServerSideIssue_A env_codeless accountsEndpoint True 0 constructor_A =
     (Inl TypeError, constructor_A\<lparr>sent := [request0 accountsEndpoint]\<rparr>) \<and>
   retrieve isServerSideIssue_B env_codeless accountsEndpoint True 0 constructor_B =
     (Inl TypeError, constructor_B\<lparr>sent := [request0 accountsEndpoint]\<rparr>)"
  by (simp add: retrieve_raises env_codeless_def afterAttempt_def constructor_A_def constructor_B_def
      request0_def rewriteHostname_def accountsEndpoint_def regionRegex_test_def endsWith_def
      myQRegions_def lineTerminator_def Let_def)

subsection \<open>Region rotation\<close>

text \<open>
  Claim C2. For a hostname whose first label is not region-qualified, and a region index
  within the three-entry list: the rewrite of the first attempt (\<open>isRetry = 0\<close>) leaves
  the region index as it is; the rewrite of a retry attempt advances it by one, modulo 3;
  and when all four attempts of a call fail with a candidate outcome, the requests are
  issued under the regions \<open>r\<close>, \<open>r + 1\<close>, \<open>r + 2\<close>, \<open>r\<close> (modulo 3), so
  the first three attempts visit each of the three regions exactly once; the fourth
  attempt is back on the region the call started with.
\<close>

theorem region_rotation:
  assumes "srv = isServerSideIssue_A \<or> srv = isServerSideIssue_B"
    and "\<not> regionRegex_test (hd (split_dot (hostname u)))"
    and "region s < 3"
    and "\<forall>k<4. candidateForRetry srv decodeResponse (net env (length (sent s) + k))"
  shows "fst (rewriteHostname 0 (region s) (hostname u)) = region s \<and>
         (0 < isRetry \<longrightarrow> fst (rewriteHostname isRetry (region s) (hostname u)) = (region s + 1) mod 3) \<and>
         map req_region (drop (length (sent s)) (sent (snd (retrieve srv env u decodeResponse 0 s)))) =
           [region s, (region s + 1) mod 3, (region s + 2) mod 3, region s] \<and>
         set [region s, (region s + 1) mod 3, (region s + 2) mod 3] = {0, 1, 2} \<and>
         distinct [region s, (region s + 1) mod 3, (region s + 2) mod 3]"
proof -
  have r: "\<And>i r. fst (rewriteHostname i r (hostname u)) = (if i = 0 then r else (r + 1) mod 3)"
    using assms(2) by (simp add: rewrite_region)
  have e: "retrieve srv env u decodeResponse 0 s =
           (Inr None, afterAttempt env u 3 (afterAttempt env u 2 (afterAttempt env u 1 (afterAttempt env u 0 s))))"
    by (rule retrieve_exhausts[OF assms(1,4)])
  consider "region s = 0" | "region s = 1" | "region s = 2"
    using assms(3) by linarith
  then show ?thesis
  proof cases
    case 1
    then show ?thesis by (simp add: e sent_afterAttempt region_afterAttempt r) auto
  next
    case 2
    then show ?thesis by (simp add: e sent_afterAttempt region_afterAttempt r) auto
  next
    case 3
    then show ?thesis by (simp add: e sent_afterAttempt region_afterAttempt r) auto
  qed
qed

theorem region_rotation_witness:
  "map req_region
     (sent (snd (retrieve isServerSideIssue_B (env_status 503) accountsEndpoint True 0 constructor_B)))
     = [0, 1, 2, 0]"
  using region_rotation[of isServerSideIssue_B accountsEndpoint constructor_B True "env_status 503" 1]
  by (simp add: candidateForRetry_def env_status_def constructor_B_def example_response_def
      isServerSideIssue_B_def accountsEndpoint_def regionRegex_test_def endsWith_def myQRegions_def
      lineTerminator_def)

subsection \<open>A 403 response\<close>

text \<open>
  Claim C3. When the response to the request of an attempt of \<open>retrieve\<close>, called
  with \<open>decodeResponse\<close> true, has status 403, the call returns \<open>null\<close> with
  that one request sent and no retry: the recorded status is 403 and the region index is
  the one the hostname rewrite of this attempt chose before the request was made. On a
  first attempt that is the region index the call was entered with.
\<close>

theorem forbidden_is_terminal:
  assumes "net env (length (sent s)) = Response r" and "status r = 403"
  shows "fst (retrieve srv env u True isRetry s) = Inr None \<and>
         length (sent (snd (retrieve srv env u True isRetry s))) = length (sent s) + 1 \<and>
         apiReturnStatus (snd (retrieve srv env u True isRetry s)) = 403 \<and>
         region (snd (retrieve srv env u True isRetry s)) =
           fst (rewriteHostname isRetry (region s) (hostname u)) \<and>
         region (snd (retrieve srv env u True 0 s)) = region s"
proof -
  have "\<And>i. retrieve srv env u True i s = (Inr None, afterAttempt env u i s)"
    using assms
    by (subst retrieve.simps)
       (simp add: Let_def afterAttempt_def upd_status_sent ok_def isCredentialsIssue_def isRedirect_def)
  then show ?thesis
    using assms by (simp add: afterAttempt_def rewrite_region)
qed

theorem forbidden_is_terminal_witness:
  "fst (retrieve isServerSideIssue_A (env_status 403) accountsEndpoint True 0 constructor_A) = Inr None \<and>
   length (sent (snd (retrieve isServerSideIssue_A (env_status 403) accountsEndpoint True 0 constructor_A))) = 1 \<and>
   region (snd (retrieve isServerSideIssue_A (env_status 403) accountsEndpoint True 0 constructor_A)) = 0"
  using forbidden_is_terminal[of "env_status 403" constructor_A "example_response 403"
      isServerSideIssue_A accountsEndpoint 0]
  by (simp add: env_status_def constructor_A_def example_response_def)

subsection \<open>The hostname rewrite is idempotent\<close>

lemma split_dot_nodot: "CHR ''.'' \<notin> set l \<Longrightarrow> split_dot l = [l]"
  by (induction l) auto

lemma split_dot_append:
  "CHR ''.'' \<notin> set l \<Longrightarrow> split_dot (l @ CHR ''.'' # rest) = l # split_dot rest"
  by (induction l) auto

lemma split_dot_labels: "l \<in> set (split_dot h) \<Longrightarrow> CHR ''.'' \<notin> set l"
proof (induction h arbitrary: l)
  case Nil
  then show ?case by simp
next
  case (Cons c cs)
  then show ?case
    by (cases "split_dot cs") (auto split: if_splits)
qed

lemma split_join_dot:
  "ls \<noteq> [] \<Longrightarrow> \<forall>l\<in>set ls. CHR ''.'' \<notin> set l \<Longrightarrow> split_dot (join_dot ls) = ls"
proof (induction ls rule: join_dot.induct)
  case 1
  then show ?case by simp
next
  case (2 l)
  then show ?case by (simp add: split_dot_nodot)
next
  case (3 l v va)
  then show ?case by (simp add: split_dot_append)
qed

lemma hd_split_dot_subset: "set (hd (split_dot h)) \<subseteq> set h"
proof (induction h)
  case Nil
  show ?case by simp
next
  case (Cons c cs)
  then show ?case by (cases "split_dot cs") (auto simp: split_dot_ne)
qed

lemma qualified_unchanged:
  "regionRegex_test (hd (split_dot h)) \<Longrightarrow> rewriteHostname i r h = (r, h)"
  using join_split_dot[of h]
  by (cases "split_dot h") (auto simp: rewriteHostname_def split_dot_ne)

lemma suffixed_matches:
  assumes "r = 1 \<or> r = 2" and "\<not> list_ex lineTerminator l"
  shows "regionRegex_test (l @ ''-'' @ regionName r)"
  using assms
  by (auto simp: regionRegex_test_def regionName_def myQRegions_def endsWith_def)

text \<open>After a rewrite that leaves the client on a named region, the first label matches
  the pattern: either it did before, or the suffix has just been added.\<close>

lemma rewrite_qualifies:
  assumes "r < 3" and "\<not> list_ex lineTerminator h"
    and "fst (rewriteHostname i r h) \<noteq> 0"
  shows "regionRegex_test (hd (split_dot (snd (rewriteHostname i r h))))"
proof (cases "regionRegex_test (hd (split_dot h))")
  case True
  then show ?thesis by (simp add: qualified_unchanged)
next
  case False
  obtain l ls where sp: "split_dot h = l # ls"
    using split_dot_ne[of h] by (cases "split_dot h") auto
  define r' where "r' = fst (rewriteHostname i r h)"
  have r': "r' = 1 \<or> r' = 2"
    using assms(1,3) unfolding r'_def by (auto simp: rewrite_region split: if_splits)
  have nolt: "\<not> list_ex lineTerminator l"
    using assms(2) hd_split_dot_subset[of h] sp by (auto simp: list_ex_iff)
  have nodot: "\<forall>x\<in>set ((l @ ''-'' @ regionName r') # ls). CHR ''.'' \<notin> set x"
    using split_dot_labels[of _ h] sp r' by (auto simp: regionName_def myQRegions_def)
  have "snd (rewriteHostname i r h) = join_dot ((l @ ''-'' @ regionName r') # ls)"
    using False sp r' assms(3) unfolding r'_def
    by (auto simp: rewriteHostname_def Let_def)
  then have "hd (split_dot (snd (rewriteHostname i r h))) = l @ ''-'' @ regionName r'"
    using split_join_dot[OF _ nodot] by simp
  then show ?thesis
    using suffixed_matches[OF r' nolt] by simp
qed

lemma rewrite_first_attempt_zero: "snd (rewriteHostname 0 0 h) = h"
  using join_split_dot[of h]
  by (cases "split_dot h") (auto simp: rewriteHostname_def split_dot_ne Let_def)

text \<open>The rewrite on the hostnames of the accounts endpoint, for each region and for a
  first attempt and a retry.\<close>

lemma rewrite_examples:
  "rewriteHostname 0 0 ''accounts.myq-cloud.com'' = (0, ''accounts.myq-cloud.com'')"
  "rewriteHostname 1 0 ''accounts.myq-cloud.com'' = (1, ''accounts-east.myq-cloud.com'')"
  "rewriteHostname 1 1 ''accounts.myq-cloud.com'' = (2, ''accounts-west.myq-cloud.com'')"
  "rewriteHostname 1 2 ''accounts.myq-cloud.com'' = (0, ''accounts.myq-cloud.com'')"
  "rewriteHostname 1 2 ''accounts-west.myq-cloud.com'' = (2, ''accounts-west.myq-cloud.com'')"
  by (simp_all add: rewriteHostname_def regionRegex_test_def endsWith_def myQRegions_def
      lineTerminator_def regionName_def Let_def)

text \<open>
  Claim C9. A hostname whose first label already matches the region pattern is left
  unchanged by the rewrite, on a first attempt and on a retry alike, and so is the region
  index: rewriting it any number of times gives the same hostname. A rewrite that leaves
  the client on a named region (index 1 or 2 of the three) yields such a hostname, and on a
  first attempt, where the region index stays as it is, rewriting the result again changes
  nothing. (Hostnames hold no line terminator; the pattern's \<open>.\<close> does not match
  one.)
\<close>

theorem hostname_rewrite_idempotent:
  "(regionRegex_test (hd (split_dot h)) \<longrightarrow> rewriteHostname isRetry r h = (r, h)) \<and>
   (r < 3 \<and> \<not> list_ex lineTerminator h \<and> fst (rewriteHostname isRetry r h) \<noteq> 0 \<longrightarrow>
      regionRegex_test (hd (split_dot (snd (rewriteHostname isRetry r h))))) \<and>
   (r < 3 \<and> \<not> list_ex lineTerminator h \<longrightarrow>
      snd (rewriteHostname 0 r (snd (rewriteHostname 0 r h))) = snd (rewriteHostname 0 r h))"
proof -
  have "snd (rewriteHostname 0 r (snd (rewriteHostname 0 r h))) = snd (rewriteHostname 0 r h)"
    if a: "r < 3" "\<not> list_ex lineTerminator h"
  proof (cases "r = 0")
    case True
    then show ?thesis by (simp add: rewrite_first_attempt_zero)
  next
    case False
    then have "fst (rewriteHostname 0 r h) \<noteq> 0" by (simp add: rewrite_region)
    from rewrite_qualifies[OF a this] show ?thesis
      by (simp add: qualified_unchanged)
  qed
  then show ?thesis
    by (auto simp: qualified_unchanged rewrite_qualifies)
qed

theorem hostname_rewrite_idempotent_witness:
  "rewriteHostname 2 1 ''accounts-east.myq-cloud.com'' = (1, ''accounts-east.myq-cloud.com'') \<and>
   regionRegex_test (hd (split_dot (snd (rewriteHostname 1 0 ''accounts.myq-cloud.com'')))) \<and>
   snd (rewriteHostname 0 2 (snd (rewriteHostname 0 2 ''accounts.myq-cloud.com''))) =
     snd (rewriteHostname 0 2 ''accounts.myq-cloud.com'')"
  using hostname_rewrite_idempotent[of "''accounts-east.myq-cloud.com''" 2 1]
    hostname_rewrite_idempotent[of "''accounts.myq-cloud.com''" 1 0]
    hostname_rewrite_idempotent[of "''accounts.myq-cloud.com''" 0 2]
  by (simp add: regionRegex_test_def endsWith_def myQRegions_def lineTerminator_def rewrite_region)

subsection \<open>What a call of \<open>retrieve\<close> changes and records\<close>

lemma retrieve_unfold:
  "retrieve srv env u dec i s =
     (case classify srv dec (net env (length (sent s))) of
        Return r \<Rightarrow> (Inr (Some r), afterAttempt env u i s)
      | Retry \<Rightarrow> if i < 3 then retrieve srv env u dec (i + 1) (afterAttempt env u i s)
                 else (Inr None, afterAttempt env u i s)
      | Fail \<Rightarrow> (Inr None, afterAttempt env u i s)
      | Raise e \<Rightarrow> (Inl e, afterAttempt env u i s))"
  apply (subst retrieve.simps)
  apply (auto simp: Let_def afterAttempt_def classify_def upd_status_sent
      split: outcome.splits option.splits)
  done




text \<open>A response that \<open>retrieve\<close> returns is the answer to the request sent last.\<close>

lemma retrieve_Some:
  "retrieve srv env u dec i s = (Inr (Some r), s') \<Longrightarrow>
     sent s' \<noteq> [] \<and> net env (length (sent s') - 1) = Response r"
proof (induction "3 - i" arbitrary: i s)
  case 0
  then show ?case
    by (subst (asm) retrieve_unfold)
       (auto simp: afterAttempt_def classify_def split: verdict.splits outcome.splits option.splits if_splits)
next
  case (Suc n)
  then have "n = 3 - (i + 1)" by simp
  from Suc(1)[OF this, of "afterAttempt env u i s"] Suc(3)
  show ?case
    by (subst (asm) retrieve_unfold)
       (auto simp: afterAttempt_def classify_def split: verdict.splits outcome.splits option.splits if_splits)
qed

text \<open>Every call sends at least one request.\<close>

lemma retrieve_sent_grows:
  "length (sent s) < length (sent (snd (retrieve srv env u dec i s)))"
proof (induction "3 - i" arbitrary: i s)
  case 0
  then show ?case
    by (subst retrieve_unfold) (auto simp: afterAttempt_def split: verdict.splits)
next
  case (Suc n)
  then have "n = 3 - (i + 1)" by simp
  from Suc(1)[OF this, of "afterAttempt env u i s"]
  show ?case
    by (subst retrieve_unfold) (auto simp: afterAttempt_def split: verdict.splits)
qed

text \<open>The region index starts at 0 and stays within the list of regions.\<close>

lemma retrieve_region_bound:
  "region s < 3 \<Longrightarrow> region (snd (retrieve srv env u dec i s)) < 3"
proof (induction "3 - i" arbitrary: i s)
  case 0
  then show ?case
    by (subst retrieve_unfold) (auto simp: afterAttempt_def rewrite_region split: verdict.splits)
next
  case (Suc n)
  then have "n = 3 - (i + 1)" by simp
  from Suc(1)[OF this, of "afterAttempt env u i s"] Suc(3)
  show ?case
    by (subst retrieve_unfold) (auto simp: afterAttempt_def rewrite_region split: verdict.splits)
qed

lemma constructor_region: "region constructor_A = 0" "region constructor_B = 0"
  by (simp_all add: constructor_A_def constructor_B_def)

subsection \<open>Runs in the example worlds\<close>

lemmas eval_defs =
  script_env_def login_script_A_def login_script_B_def example_response_def example_token_def
  short_token_def example_device_def loginPage_def callbackPage_def appRedirect_def token_ok_def
  accounts_ok_def devices_ok_def request0_def logged_in_A_def logged_in_B_def env_session_A_def
  env_session_B_def env_down_def env_status_def constructor_A_def constructor_B_def
  login_A_def refreshDevices_A_def refreshAccessToken_A_def acquireAccessToken_A_def
  getOAuthToken_A_def oauthGetAuthPage_A_def oauthLogin_A_def oauthRedirect_A_def
  refreshOAuthToken_A_def setTokenRefreshTimer_A_def getAccounts_def
  login_B_def refreshDevices_B_def refreshAccessToken_B_def acquireAccessToken_B_def
  getOAuthToken_B_def oauthGetAuthPage_B_def oauthLogin_B_def oauthRedirect_B_def
  refreshOAuthToken_B_def adjustRefreshInterval_B_def Date_now_def elapsedLess_def elapsedMore_def
  truthyNumber_def trimSetCookie_def execute_A_def execute_B_def executeCheck_def
  commandEndpoint_A_def commandEndpoint_B_def deviceMap_def objectPrototypeKeys_def
  getDevice_A_def getDevice_B_def findDevice_def toUpperCase_def
  retrieve_unfold classify_def afterAttempt_def ok_def isRedirect_def isCredentialsIssue_def
  isServerSideIssue_A_def isServerSideIssue_B_def
  rewriteHostname_def regionRegex_test_def endsWith_def myQRegions_def lineTerminator_def regionName_def
  authEndpoint_def tokenEndpoint_def accountsEndpoint_def devicesEndpoint_def
  truthy_def tooFewCookies_def resolveURL_def parseURL_def searchParams_get_def Let_def

text \<open>A login with valid credentials succeeds and stores the device list, in both
  copies; the states it ends in are the ones written out above.\<close>

lemma run_login_A:
  "login_A env_session_A ''me@example.org'' ''secret'' constructor_A = (Inr True, logged_in_A)"
  by (simp add: eval_defs)

lemma run_login_B:
  "login_B (env_session_B 1700000000000) ''me@example.org'' ''secret'' constructor_B =
     (Inr True, logged_in_B)"
  by (simp add: eval_defs)

text \<open>A second login of copy B at the same instant resets the two recorded times and
  runs the whole sequence again, seven more requests.\<close>

lemma run_login_B_again:
  "fst (login_B (script_env (login_script_B @ login_script_B) 1700000000000)
          ''me@example.org'' ''secret'' logged_in_B) = Inr True \<and>
   length (sent (snd (login_B (script_env (login_script_B @ login_script_B) 1700000000000)
          ''me@example.org'' ''secret'' logged_in_B))) = 14"
  by (simp add: eval_defs)

lemma generateLoginCookies_example:
  "generateLoginCookies ((example_response 302)\<lparr>set_cookie := Some [''a=1; Path=/'', ''b=2'']\<rparr>)
     = ''a=1; b=2''"
  by (simp add: generateLoginCookies_def example_response_def)

text \<open>Where every request is refused, the login of copy A gives up after the four
  attempts on the authorization endpoint, each under the next region.\<close>

lemma run_login_down_A:
  "fst (login_A env_down ''me@example.org'' ''secret'' constructor_A) = Inr False \<and>
   map (hostname \<circ> req_url) (sent (snd (login_A env_down ''me@example.org'' ''secret'' constructor_A))) =
     [''partner-identity.myq-cloud.com'', ''partner-identity-east.myq-cloud.com'',
      ''partner-identity-west.myq-cloud.com'', ''partner-identity.myq-cloud.com'']"
  by (simp add: eval_defs)

subsection \<open>A failed command\<close>





subsection \<open>The authentication cooldown\<close>

text \<open>
  Claim C4, as amended. In copy B, a call of \<open>refreshAccessToken\<close> made less than two
  minutes after the time recorded in \<open>lastAuthenticateCall\<close> (the start of the last full
  authentication) sends no request, changes nothing but the count of clock readings, and
  returns true if and only if the account list is non-empty and an access token is present
  (neither \<open>null\<close> nor the empty string).
\<close>

theorem refreshAccessToken_throttled:
  assumes "lastAuthenticateCall s = Some t" and "clock env (ticks s) - t < 2 * 60 * 1000"
  shows "refreshAccessToken_B env s =
           (Inr (accounts s \<noteq> [] \<and> truthy (accessToken s)), s\<lparr>ticks := ticks s + 1\<rparr>) \<and>
         sent (snd (refreshAccessToken_B env s)) = sent s"
  using assms by (simp add: refreshAccessToken_B_def Date_now_def elapsedLess_def)

text \<open>One minute after the login of copy B the call answers true without a request.\<close>

theorem refreshAccessToken_throttled_witness:
  "fst (refreshAccessToken_B (env_session_B 1700000060000) logged_in_B) = Inr True \<and>
   sent (snd (refreshAccessToken_B (env_session_B 1700000060000) logged_in_B)) = sent logged_in_B"
  using refreshAccessToken_throttled[of logged_in_B 1700000000000 "env_session_B 1700000060000"]
  by (simp add: logged_in_B_def env_session_B_def script_env_def truthy_def)

text \<open>
  Claim C4 as stated fails on copy A, which keeps no time of its authentication attempts:
  its \<open>refreshAccessToken\<close>, called right after the successful login, sends a request
  for a new token.
\<close>

theorem refreshAccessToken_A_counterexample:
  "login_A env_session_A ''me@example.org'' ''secret'' constructor_A = (Inr True, logged_in_A) \<and>
   fst (refreshAccessToken_A env_session_A logged_in_A) = Inr True \<and>
   sent (snd (refreshAccessToken_A env_session_A logged_in_A)) =
     sent logged_in_A @ [request0 tokenEndpoint]"
  by (simp add: eval_defs)

subsection \<open>The cooldown of \<open>refreshDevices\<close>\<close>

text \<open>
  Claim C7, as amended. In copy B, on a logged-in client, a call of \<open>refreshDevices\<close>
  made less than two seconds after the non-zero time recorded in
  \<open>lastRefreshDevicesCall\<close> (the last call that was not throttled) sends no request,
  leaves the device list and every other field but the count of clock readings as they
  are, and returns true if and only if a device list exists.
\<close>

theorem refreshDevices_throttled:
  assumes "truthy (password s)" and "lastRefreshDevicesCall s = Some t" and "t \<noteq> 0"
    and "clock env (ticks s) - t < 2 * 1000"
  shows "refreshDevices_B env s = (Inr (devices s \<noteq> None), s\<lparr>ticks := ticks s + 1\<rparr>) \<and>
         sent (snd (refreshDevices_B env s)) = sent s \<and>
         devices (snd (refreshDevices_B env s)) = devices s"
  using assms by (simp add: refreshDevices_B_def Date_now_def elapsedLess_def truthyNumber_def)

text \<open>One second after the login of copy B the call answers true without a request.\<close>

theorem refreshDevices_throttled_witness:
  "fst (refreshDevices_B (env_session_B 1700000001000) logged_in_B) = Inr True \<and>
   sent (snd (refreshDevices_B (env_session_B 1700000001000) logged_in_B)) = sent logged_in_B \<and>
   devices (snd (refreshDevices_B (env_session_B 1700000001000) logged_in_B)) = Some [example_device]"
  using refreshDevices_throttled[of logged_in_B 1700000000000 "env_session_B 1700000001000"]
  by (simp add: logged_in_B_def env_session_B_def script_env_def truthy_def)

text \<open>
  Claim C7 as stated fails on copy A, which has no cooldown: its \<open>refreshDevices\<close>,
  called right after the successful login, asks for a token, the accounts and the devices
  again.
\<close>

theorem refreshDevices_A_counterexample:
  "login_A env_session_A ''me@example.org'' ''secret'' constructor_A = (Inr True, logged_in_A) \<and>
   fst (refreshDevices_A env_session_A logged_in_A) = Inr True \<and>
   sent (snd (refreshDevices_A env_session_A logged_in_A)) =
     sent logged_in_A @
       [request0 tokenEndpoint, request0 accountsEndpoint, request0 (devicesEndpoint ''acc1'')]"
  by (simp add: eval_defs)

subsection \<open>Stale device lists\<close>

text \<open>
  Claim C8, as amended. In copy B, \<open>getDevice\<close> returns \<open>null\<close> when there is no
  device list, when no time of a \<open>refreshDevices\<close> call is recorded (or the recorded
  time is 0), and when more than 60 seconds have passed since the recorded time.
\<close>

theorem getDevice_stale:
  assumes "devices s = None \<or> lastRefreshDevicesCall s = None \<or> lastRefreshDevicesCall s = Some 0 \<or>
           (\<exists>t. lastRefreshDevicesCall s = Some t \<and> clock env (ticks s) - t > 60 * 1000)"
  shows "fst (getDevice_B env serial s) = None"
  using assms
  by (auto simp: getDevice_B_def Date_now_def elapsedMore_def truthyNumber_def split: option.splits)

text \<open>The device of the example is found 60 seconds after the login of copy B, and no
  longer one millisecond later.\<close>

lemma getDevice_B_fresh:
  "fst (getDevice_B (env_session_B 1700000060000) ''gw0123456789'' logged_in_B) = Some example_device"
  by (simp add: eval_defs)

theorem getDevice_stale_witness:
  "fst (getDevice_B (env_session_B 1700000060001) ''gw0123456789'' logged_in_B) = None"
  using getDevice_stale[of logged_in_B "env_session_B 1700000060001" "''gw0123456789''"]
  by (simp add: logged_in_B_def env_session_B_def script_env_def)

text \<open>
  Claim C8 as stated fails on copy A, whose \<open>getDevice\<close> reads no clock and keeps no
  time of the refresh: the device list stored by the login is searched however old it is.
\<close>

theorem getDevice_A_counterexample:
  "login_A env_session_A ''me@example.org'' ''secret'' constructor_A = (Inr True, logged_in_A) \<and>
   getDevice_A ''gw0123456789'' logged_in_A = Some example_device"
  by (simp add: eval_defs)

subsection \<open>The refresh interval\<close>

lemma adjustRefreshInterval_B_eq:
  "adjustRefreshInterval_B s = s\<lparr>refreshInterval := max 300 (refreshInterval s - 420)\<rparr>"
  by (simp add: adjustRefreshInterval_B_def Let_def max_def)

text \<open>
  Claim C6, as amended. In copy B, after a successful token acquisition
  (\<open>getOAuthToken\<close> returns a token) and after a successful token refresh
  (\<open>refreshOAuthToken\<close> returns true), the refresh interval is the \<open>expires_in\<close> of
  the token response, the last response received, minus 420 seconds, and 300 seconds when
  that is less; so it is never under 300 seconds.
\<close>

theorem refreshInterval_floor:
  "(getOAuthToken_B env s = (Inr (Some tok), s') \<longrightarrow>
      (\<exists>r. net env (length (sent s') - 1) = Response r \<and>
           refreshInterval s' = max 300 (expires_in (json_token r) - 420) \<and> 300 \<le> refreshInterval s')) \<and>
   (refreshOAuthToken_B env s = (Inr True, s'') \<longrightarrow>
      (\<exists>r. net env (length (sent s'') - 1) = Response r \<and>
           refreshInterval s'' = max 300 (expires_in (json_token r) - 420) \<and> 300 \<le> refreshInterval s''))"
proof -
  have 1: "\<exists>r. net env (length (sent s') - 1) = Response r \<and>
           refreshInterval s' = max 300 (expires_in (json_token r) - 420) \<and> 300 \<le> refreshInterval s'"
    if "getOAuthToken_B env s = (Inr (Some tok), s')"
    using that
    by (auto simp: getOAuthToken_B_def Let_def adjustRefreshInterval_B_eq
        split: prod.splits option.splits sum.splits dest!: retrieve_Some)
  have 2: "\<exists>r. net env (length (sent s'') - 1) = Response r \<and>
           refreshInterval s'' = max 300 (expires_in (json_token r) - 420) \<and> 300 \<le> refreshInterval s''"
    if "refreshOAuthToken_B env s = (Inr True, s'')"
    using that
    by (auto simp: refreshOAuthToken_B_def Let_def adjustRefreshInterval_B_eq Date_now_def
        split: prod.splits option.splits sum.splits dest!: retrieve_Some)
  show ?thesis using 1 2 by blast
qed

text \<open>The token of the login expires after an hour: the interval is 3180 seconds. A
  refreshed token that expires after a minute gives 300 seconds.\<close>

theorem refreshInterval_floor_witness:
  "refreshInterval (snd (getOAuthToken_B (env_session_B 1700000000000)
       (constructor_B\<lparr>email := Some ''me@example.org'', password := Some ''secret''\<rparr>))) = 3180 \<and>
   refreshInterval (snd (refreshOAuthToken_B
       (script_env (login_script_B @ [Response ((example_response 200)\<lparr>json_token := short_token\<rparr>)]) 1700000000000)
       logged_in_B)) = 300"
proof -
  define env1 where "env1 = env_session_B 1700000000000"
  define s1 where "s1 = constructor_B\<lparr>email := Some ''me@example.org'', password := Some ''secret''\<rparr>"
  define env2 where "env2 =
    script_env (login_script_B @ [Response ((example_response 200)\<lparr>json_token := short_token\<rparr>)]) 1700000000000"
  define s1' where "s1' = snd (getOAuthToken_B env1 s1)"
  define s2' where "s2' = snd (refreshOAuthToken_B env2 logged_in_B)"
  have h1: "getOAuthToken_B env1 s1 = (Inr (Some ''Bearer abc''), s1')"
    unfolding s1'_def env1_def s1_def by (simp add: eval_defs)
  have n1: "net env1 (length (sent s1') - 1) = token_ok"
    unfolding s1'_def env1_def s1_def by (simp add: eval_defs)
  have h2: "refreshOAuthToken_B env2 logged_in_B = (Inr True, s2')"
    unfolding s2'_def env2_def by (simp add: eval_defs)
  have n2: "net env2 (length (sent s2') - 1) = Response ((example_response 200)\<lparr>json_token := short_token\<rparr>)"
    unfolding s2'_def env2_def by (simp add: eval_defs)
  have r1: "refreshInterval s1' = 3180"
    using refreshInterval_floor[where env = env1 and s = s1 and tok = "''Bearer abc''" and s' = s1',
        THEN conjunct1] h1 n1
    by (auto simp: token_ok_def example_response_def example_token_def)
  have r2: "refreshInterval s2' = 300"
    using refreshInterval_floor[where env = env2 and s = logged_in_B and s'' = s2', THEN conjunct2]
      h2 n2
    by (auto simp: example_response_def short_token_def)
  show ?thesis
    using r1 r2 unfolding s1'_def s2'_def env1_def env2_def s1_def by simp
qed

text \<open>
  Claim C6 as stated fails on copy A, which computes no such interval: it sets a timer
  to \<open>expires_in\<close> minus 180 seconds, with no least value. After the login, whose token
  expires after an hour, the delay is 3420 seconds; after a refresh whose token expires
  after a minute, the delay is negative.
\<close>

theorem refreshTimer_A_counterexample:
  "login_A env_session_A ''me@example.org'' ''secret'' constructor_A = (Inr True, logged_in_A) \<and>
   refreshTimer logged_in_A = Some (3420 * 1000) \<and>
   fst (refreshOAuthToken_A
          (script_env (login_script_A @ [Response ((example_response 200)\<lparr>json_token := short_token\<rparr>)]) 0)
          logged_in_A) = Inr True \<and>
   refreshTimer (snd (refreshOAuthToken_A
          (script_env (login_script_A @ [Response ((example_response 200)\<lparr>json_token := short_token\<rparr>)]) 0)
          logged_in_A)) = Some (- 120 * 1000)"
  by (simp add: eval_defs)

subsection \<open>A failed device-list request\<close>






















end
